theory Spec2Isabelle
  imports Main "HOL-Library.Word"
begin

section \<open>Data model\<close>

text \<open>
  Go's \<open>error\<close> interface. The handler and the client only pass errors on to
  \<open>log.Fatal\<close>; the binder of the web framework reports its failures as HTTP
  errors carrying a status code.
\<close>

datatype error = HTTPError int string | OtherError string

text \<open>Go's \<open>int\<close> on a 64-bit platform.\<close>

type_synonym go_int = "64 word"

text \<open>
  Modelled from the spec: the package \<open>spec\<close> generated from the OpenAPI document
  is not among the sources. The document (README, complete specification) declares
  the schema Order with the optional properties \<open>id\<close> (string), \<open>item\<close> (string,
  enumerated: Tea Table Green, Tea Table Red) and \<open>price\<close> (integer); the README
  says the generated fields are pointers because the properties are optional, so
  each is an option here (\<open>None\<close> is the nil pointer).
\<close>

type_synonym OrderItem = string

definition OrderItemTeaTableGreen :: OrderItem where
  "OrderItemTeaTableGreen = ''Tea Table Green''"

definition OrderItemTeaTableRed :: OrderItem where
  "OrderItemTeaTableRed = ''Tea Table Red''"

definition declared_items :: "OrderItem list" where
  "declared_items = [OrderItemTeaTableGreen, OrderItemTeaTableRed]"

record Order =
  Id' :: "string option"
  Item :: "OrderItem option"
  Price :: "go_int option"

type_synonym PutOrderIdJSONRequestBody = Order

section \<open>Server\<close>

text \<open>
  The part of \<open>echo.Context\<close> the handler can touch. \<open>Bind\<close> is what
  \<open>c.Bind(&req)\<close> yields on the request at hand: an error, or the decoded body.
  \<open>Response\<close> is the framework's response record: the status to send, the number
  of body bytes written, and whether the header has been written.
\<close>

record Response =
  Status :: int
  Size :: nat
  Committed :: bool

record Context =
  Bind :: "error + PutOrderIdJSONRequestBody"
  Response :: Response

text \<open>
  The standard logger: \<open>log.Printf\<close> is recorded with its format and arguments,
  \<open>log.Fatal\<close> as the printed error.
\<close>

datatype LogEntry = Print error | Printf string string Order

text \<open>
  What a call of the handler ends in: the process exits with a code (\<open>log.Fatal\<close> is
  \<open>Print\<close> followed by \<open>os.Exit(1)\<close>), or the handler returns an error value
  (\<open>None\<close> is nil) and leaves the context. Both carry the log written so far.
\<close>

datatype Result = Exited nat "LogEntry list" | Returned "error option" Context "LogEntry list"

definition Fatal :: "error \<Rightarrow> LogEntry list \<Rightarrow> Result" where
  "Fatal err lg = Exited 1 (lg @ [Print err])"

definition PutOrderId :: "Context \<Rightarrow> string \<Rightarrow> LogEntry list \<Rightarrow> Result" where
  "PutOrderId c id' lg =
     (case Bind c of
        Inl err \<Rightarrow> Fatal err lg
      | Inr req \<Rightarrow> Returned None c (lg @ [Printf ''id: %v, req: %v'' id' req]))"

subsection \<open>What the client of the server sees\<close>

definition StatusOK :: int where
  "StatusOK = 200"

definition StatusCreated :: int where
  "StatusCreated = 201"

definition StatusInternalServerError :: int where
  "StatusInternalServerError = 500"

text \<open>
  The contract of the web framework and of \<open>net/http\<close> around a handler, as far as the
  status line goes. Neither is code of this repository; the handler is run inside
  them. A process that has exited sends nothing. A response whose header has been
  written keeps its status. Otherwise a returned HTTP error is sent with its own code,
  any other error as 500, and a nil return with nothing written is answered with 200.
\<close>

fun response_status :: "Result \<Rightarrow> int option" where
  "response_status (Exited code lg) = None"
| "response_status (Returned e c lg) =
     (if Committed (Response c) then Some (Status (Response c))
      else case e of
             None \<Rightarrow> Some StatusOK
           | Some (HTTPError code msg) \<Rightarrow> Some code
           | Some (OtherError msg) \<Rightarrow> Some StatusInternalServerError)"

definition client_error :: "int \<Rightarrow> bool" where
  "client_error s \<longleftrightarrow> 400 \<le> s \<and> s < 500"

text \<open>A request is rejected when the status sent for it is in the 4xx range.\<close>

definition rejected :: "Result \<Rightarrow> bool" where
  "rejected r = (case response_status r of None \<Rightarrow> False | Some s \<Rightarrow> client_error s)"

definition crashed :: "Result \<Rightarrow> bool" where
  "crashed r = (case r of Exited code lg \<Rightarrow> True | Returned e c lg \<Rightarrow> False)"

definition returns_nil :: "Result \<Rightarrow> bool" where
  "returns_nil r = (case r of Exited code lg \<Rightarrow> False | Returned e c lg \<Rightarrow> e = None)"

section \<open>Wire encoding of an Order\<close>

datatype JSON =
    JNull
  | JBool bool
  | JNumber int
  | JString string
  | JArray "JSON list"
  | JObject "(string \<times> JSON) list"

text \<open>
  Modelled from the spec: the generated client encodes the request body and the
  framework's binder decodes it; the generated type with its field names is not among
  the sources. The body is a key-value encoding with the optional fields \<open>id\<close> and
  \<open>item\<close> (strings) and \<open>price\<close> (integer), as in the README's
  \<^verbatim>\<open>{"item": "Tea Table Green", "price": 106}\<close>. An absent field (nil pointer) is
  left out; a present one is written with its value, zero included.
\<close>

definition Marshal :: "Order \<Rightarrow> JSON" where
  "Marshal r = JObject
     ((case Id' r of None \<Rightarrow> [] | Some s \<Rightarrow> [(''id'', JString s)]) @
      (case Item r of None \<Rightarrow> [] | Some i \<Rightarrow> [(''item'', JString i)]) @
      (case Price r of None \<Rightarrow> [] | Some p \<Rightarrow> [(''price'', JNumber (sint p))]))"

text \<open>
  Modelled from the spec: decoding a member of the body into the Order. A null makes
  the field absent, a value of the declared type makes it present, any other value is
  a malformed body; an integer that does not fit Go's \<open>int\<close> is one too. Members
  that the schema does not declare are skipped. No enumeration check is made: the
  generated item type is a plain string type.
\<close>

definition unmarshal_error :: "string \<Rightarrow> error" where
  "unmarshal_error field = HTTPError 400 (''cannot unmarshal into field '' @ field)"

fun unmarshal_field :: "Order \<Rightarrow> string \<times> JSON \<Rightarrow> error + Order" where
  "unmarshal_field r (k, v) =
     (if k = ''id'' then
        (case v of
           JNull \<Rightarrow> Inr (r\<lparr>Id' := None\<rparr>)
         | JString s \<Rightarrow> Inr (r\<lparr>Id' := Some s\<rparr>)
         | _ \<Rightarrow> Inl (unmarshal_error k))
      else if k = ''item'' then
        (case v of
           JNull \<Rightarrow> Inr (r\<lparr>Item := None\<rparr>)
         | JString s \<Rightarrow> Inr (r\<lparr>Item := Some s\<rparr>)
         | _ \<Rightarrow> Inl (unmarshal_error k))
      else if k = ''price'' then
        (case v of
           JNull \<Rightarrow> Inr (r\<lparr>Price := None\<rparr>)
         | JNumber n \<Rightarrow>
             if - (2 ^ 63) \<le> n \<and> n < 2 ^ 63 then Inr (r\<lparr>Price := Some (word_of_int n)\<rparr>)
             else Inl (unmarshal_error k)
         | _ \<Rightarrow> Inl (unmarshal_error k))
      else Inr r)"

fun unmarshal_fields :: "Order \<Rightarrow> (string \<times> JSON) list \<Rightarrow> error + Order" where
  "unmarshal_fields r [] = Inr r"
| "unmarshal_fields r (kv # kvs) =
     (case unmarshal_field r kv of
        Inl e \<Rightarrow> Inl e
      | Inr r' \<Rightarrow> unmarshal_fields r' kvs)"

definition Unmarshal :: "JSON \<Rightarrow> error + Order" where
  "Unmarshal j =
     (case j of
        JObject kvs \<Rightarrow> unmarshal_fields \<lparr>Id' = None, Item = None, Price = None\<rparr> kvs
      | JNull \<Rightarrow> Inr \<lparr>Id' = None, Item = None, Price = None\<rparr>
      | _ \<Rightarrow> Inl (unmarshal_error ''Order''))"

section \<open>Client\<close>

definition server :: string where
  "server = ''http://localhost:8088''"

text \<open>
  Modelled from the spec: the generated response type; the client reads nothing of it
  but the numeric status code.
\<close>

record PutOrderIdResponse =
  StatusCode :: int

text \<open>
  The generated client, which is not among the sources, is a parameter of the
  program: building a client for a base address, and the one exchange with the
  server, each ending in an error or in a value.
\<close>

record 'c Env =
  NewClientWithResponses :: "string \<Rightarrow> error + 'c"
  PutOrderIdWithResponse :: "'c \<Rightarrow> string \<Rightarrow> PutOrderIdJSONRequestBody \<Rightarrow> error + PutOrderIdResponse"

text \<open>
  A run of the client: its exit code, what it logged, what it printed on standard
  output, and the requests it handed to the generated client.
\<close>

record Run =
  exit_code :: nat
  logged :: "LogEntry list"
  stdout :: "int list"
  requests :: "(string \<times> PutOrderIdJSONRequestBody) list"

definition client_main :: "'c Env \<Rightarrow> Run" where
  "client_main env =
     (case NewClientWithResponses env server of
        Inl err \<Rightarrow> \<lparr>exit_code = 1, logged = [Print err], stdout = [], requests = []\<rparr>
      | Inr client \<Rightarrow>
          (let item = OrderItemTeaTableGreen;
               price = 14;
               body = \<lparr>Id' = None, Item = Some item, Price = Some price\<rparr>
           in case PutOrderIdWithResponse env client ''234578'' body of
                Inl err \<Rightarrow>
                  \<lparr>exit_code = 1, logged = [Print err], stdout = [],
                   requests = [(''234578'', body)]\<rparr>
              | Inr resp \<Rightarrow>
                  \<lparr>exit_code = 0, logged = [], stdout = [StatusCode resp],
                   requests = [(''234578'', body)]\<rparr>))"

section \<open>Properties of the handler\<close>

lemma PutOrderId_bind_error:
  "Bind c = Inl err \<Longrightarrow> PutOrderId c id' lg = Exited 1 (lg @ [Print err])"
  by (simp add: PutOrderId_def Fatal_def)

lemma PutOrderId_bind_ok:
  "Bind c = Inr req \<Longrightarrow>
     PutOrderId c id' lg = Returned None c (lg @ [Printf ''id: %v, req: %v'' id' req])"
  by (simp add: PutOrderId_def)

text \<open>
  C1. A PUT to \<open>/order/{id}\<close> with a payload whose item is a declared enum member
  should be answered with status 201. The handler returns nil without writing a
  status: at the request \<open>PUT /order/1\<close> with body \<^verbatim>\<open>{"item":"Tea Table Red"}\<close>,
  handed over with a fresh response, the context comes back untouched and the status
  sent is 200, not the documented 201.
\<close>

theorem valid_order_answered_with_200:
  "OrderItemTeaTableRed \<in> set declared_items \<and>
   PutOrderId
     \<lparr>Bind = Inr \<lparr>Id' = None, Item = Some OrderItemTeaTableRed, Price = None\<rparr>,
      Response = \<lparr>Status = StatusOK, Size = 0, Committed = False\<rparr>\<rparr> ''1'' []
     = Returned None
         \<lparr>Bind = Inr \<lparr>Id' = None, Item = Some OrderItemTeaTableRed, Price = None\<rparr>,
          Response = \<lparr>Status = StatusOK, Size = 0, Committed = False\<rparr>\<rparr>
         [Printf ''id: %v, req: %v'' ''1''
            \<lparr>Id' = None, Item = Some OrderItemTeaTableRed, Price = None\<rparr>] \<and>
   response_status
     (PutOrderId
        \<lparr>Bind = Inr \<lparr>Id' = None, Item = Some OrderItemTeaTableRed, Price = None\<rparr>,
         Response = \<lparr>Status = StatusOK, Size = 0, Committed = False\<rparr>\<rparr> ''1'' [])
     = Some 200 \<and>
   StatusCreated = 201"
  by (simp add: PutOrderId_def declared_items_def StatusOK_def StatusCreated_def)

text \<open>
  C2. When decoding the request body into an Order fails, the handler does not return
  an error response: it prints the error and the process exits with code 1.
\<close>

theorem decode_failure_terminates_process:
  assumes "Bind c = Inl err"
  shows "PutOrderId c id' lg = Exited 1 (lg @ [Print err]) \<and>
         \<not> (\<exists>e c' lg'. PutOrderId c id' lg = Returned e c' lg')"
  using assms by (simp add: PutOrderId_bind_error)

theorem decode_failure_terminates_process_witness:
  "Bind \<lparr>Bind = Inl (HTTPError 400 ''unexpected EOF''),
          Response = \<lparr>Status = 200, Size = 0, Committed = False\<rparr>\<rparr>
     = Inl (HTTPError 400 ''unexpected EOF'') \<and>
   PutOrderId \<lparr>Bind = Inl (HTTPError 400 ''unexpected EOF''),
                Response = \<lparr>Status = 200, Size = 0, Committed = False\<rparr>\<rparr> ''1'' []
     = Exited 1 [Print (HTTPError 400 ''unexpected EOF'')]"
  using decode_failure_terminates_process
    [of "\<lparr>Bind = Inl (HTTPError 400 ''unexpected EOF''),
          Response = \<lparr>Status = 200, Size = 0, Committed = False\<rparr>\<rparr>"
        "HTTPError 400 ''unexpected EOF''" "''1''" "[]"]
  by simp

text \<open>
  C3. The scenario of the README: \<open>PUT /order/234578\<close> with body
  \<^verbatim>\<open>{"item":"Tea Table Green","price":14}\<close>. The body decodes to the order with
  item Tea Table Green and price 14, and the handler logs the id 234578 with that
  order; but it returns nil with the response untouched, so the status sent is 200
  and not 201.
\<close>

theorem readme_scenario_answered_with_200:
  "Unmarshal (JObject [(''item'', JString ''Tea Table Green''), (''price'', JNumber 14)])
     = Inr \<lparr>Id' = None, Item = Some OrderItemTeaTableGreen, Price = Some 14\<rparr> \<and>
   PutOrderId
     \<lparr>Bind = Inr \<lparr>Id' = None, Item = Some OrderItemTeaTableGreen, Price = Some 14\<rparr>,
      Response = \<lparr>Status = StatusOK, Size = 0, Committed = False\<rparr>\<rparr> ''234578'' []
     = Returned None
         \<lparr>Bind = Inr \<lparr>Id' = None, Item = Some OrderItemTeaTableGreen, Price = Some 14\<rparr>,
          Response = \<lparr>Status = StatusOK, Size = 0, Committed = False\<rparr>\<rparr>
         [Printf ''id: %v, req: %v'' ''234578''
            \<lparr>Id' = None, Item = Some ''Tea Table Green'', Price = Some 14\<rparr>] \<and>
   response_status
     (PutOrderId
        \<lparr>Bind = Inr \<lparr>Id' = None, Item = Some OrderItemTeaTableGreen, Price = Some 14\<rparr>,
         Response = \<lparr>Status = StatusOK, Size = 0, Committed = False\<rparr>\<rparr> ''234578'' [])
     = Some 200 \<and>
   StatusCreated = 201"
  by (simp add: Unmarshal_def PutOrderId_def OrderItemTeaTableGreen_def StatusOK_def
      StatusCreated_def)

text \<open>
  C4, as amended. For a payload whose item is a string outside the declared
  enumeration and whose body decodes into an Order, handed to the handler with a
  response that has not been written yet, the handler makes no enumeration check:
  the process does not crash, and the request is not rejected with a client error
  either; the handler returns nil.
\<close>

theorem undeclared_item_is_accepted:
  assumes "Bind c = Inr req"
    and "Item req = Some s"
    and "s \<notin> set declared_items"
    and "\<not> Committed (Response c)"
  shows "\<not> crashed (PutOrderId c id' lg) \<and>
         \<not> rejected (PutOrderId c id' lg) \<and>
         returns_nil (PutOrderId c id' lg)"
  using assms
  by (simp add: PutOrderId_bind_ok crashed_def rejected_def returns_nil_def client_error_def
      StatusOK_def)

theorem undeclared_item_is_accepted_witness:
  "''Nonexistent Item'' \<notin> set declared_items \<and>
   \<not> Committed (Response
     \<lparr>Bind = Inr \<lparr>Id' = None, Item = Some ''Nonexistent Item'', Price = Some (- 5)\<rparr>,
      Response = \<lparr>Status = StatusOK, Size = 0, Committed = False\<rparr>\<rparr>) \<and>
   \<not> crashed
     (PutOrderId
        \<lparr>Bind = Inr \<lparr>Id' = None, Item = Some ''Nonexistent Item'', Price = Some (- 5)\<rparr>,
         Response = \<lparr>Status = StatusOK, Size = 0, Committed = False\<rparr>\<rparr> ''7'' []) \<and>
   \<not> rejected
     (PutOrderId
        \<lparr>Bind = Inr \<lparr>Id' = None, Item = Some ''Nonexistent Item'', Price = Some (- 5)\<rparr>,
         Response = \<lparr>Status = StatusOK, Size = 0, Committed = False\<rparr>\<rparr> ''7'' []) \<and>
   returns_nil
     (PutOrderId
        \<lparr>Bind = Inr \<lparr>Id' = None, Item = Some ''Nonexistent Item'', Price = Some (- 5)\<rparr>,
         Response = \<lparr>Status = StatusOK, Size = 0, Committed = False\<rparr>\<rparr> ''7'' [])"
proof -
  have notin: "''Nonexistent Item'' \<notin> set declared_items"
    by (simp add: declared_items_def OrderItemTeaTableGreen_def OrderItemTeaTableRed_def)
  have fresh: "\<not> Committed (Response
     \<lparr>Bind = Inr \<lparr>Id' = None, Item = Some ''Nonexistent Item'', Price = Some (- 5)\<rparr>,
      Response = \<lparr>Status = StatusOK, Size = 0, Committed = False\<rparr>\<rparr>)"
    by simp
  have "\<not> crashed
          (PutOrderId
             \<lparr>Bind = Inr \<lparr>Id' = None, Item = Some ''Nonexistent Item'', Price = Some (- 5)\<rparr>,
              Response = \<lparr>Status = StatusOK, Size = 0, Committed = False\<rparr>\<rparr> ''7'' []) \<and>
        \<not> rejected
          (PutOrderId
             \<lparr>Bind = Inr \<lparr>Id' = None, Item = Some ''Nonexistent Item'', Price = Some (- 5)\<rparr>,
              Response = \<lparr>Status = StatusOK, Size = 0, Committed = False\<rparr>\<rparr> ''7'' []) \<and>
        returns_nil
          (PutOrderId
             \<lparr>Bind = Inr \<lparr>Id' = None, Item = Some ''Nonexistent Item'', Price = Some (- 5)\<rparr>,
              Response = \<lparr>Status = StatusOK, Size = 0, Committed = False\<rparr>\<rparr> ''7'' [])"
    by (rule undeclared_item_is_accepted
          [where s = "''Nonexistent Item''"
             and req = "\<lparr>Id' = None, Item = Some ''Nonexistent Item'', Price = Some (- 5)\<rparr>"])
      (simp_all add: notin)
  with notin fresh show ?thesis by blast
qed

text \<open>
  C4 as stated fails: at \<open>PUT /order/1\<close> with body
  \<^verbatim>\<open>{"item":"Nonexistent Item"}\<close> the item is not a declared one, the body decodes,
  and the request is not rejected with a client error.
\<close>

theorem undeclared_item_not_rejected:
  "''Nonexistent Item'' \<notin> set declared_items \<and>
   Unmarshal (JObject [(''item'', JString ''Nonexistent Item'')])
     = Inr \<lparr>Id' = None, Item = Some ''Nonexistent Item'', Price = None\<rparr> \<and>
   \<not> rejected
     (PutOrderId
        \<lparr>Bind = Inr \<lparr>Id' = None, Item = Some ''Nonexistent Item'', Price = None\<rparr>,
         Response = \<lparr>Status = StatusOK, Size = 0, Committed = False\<rparr>\<rparr> ''1'' [])"
  by (simp add: declared_items_def OrderItemTeaTableGreen_def OrderItemTeaTableRed_def
      Unmarshal_def PutOrderId_def rejected_def client_error_def StatusOK_def)

text \<open>
  C7. When the body decodes, the handler appends one line to the log, the format with
  the id and the decoded order, and does nothing else: it returns nil, and the
  context comes back as it went in, so no status (the documented 201 included) and no
  body have been written.
\<close>

theorem handler_only_logs:
  assumes "Bind c = Inr req"
  shows "\<exists>c' lg'. PutOrderId c id' lg = Returned None c' lg' \<and>
           lg' = lg @ [Printf ''id: %v, req: %v'' id' req] \<and>
           c' = c \<and>
           Status (Response c') = Status (Response c) \<and>
           Size (Response c') = Size (Response c) \<and>
           Committed (Response c') = Committed (Response c)"
  using assms by (simp add: PutOrderId_bind_ok)

theorem handler_only_logs_witness:
  "\<exists>c' lg'.
     PutOrderId
       \<lparr>Bind = Inr \<lparr>Id' = None, Item = Some OrderItemTeaTableRed, Price = Some 3\<rparr>,
        Response = \<lparr>Status = StatusOK, Size = 0, Committed = False\<rparr>\<rparr> ''42''
       [Printf ''id: %v, req: %v'' ''41'' \<lparr>Id' = None, Item = None, Price = None\<rparr>]
       = Returned None c' lg' \<and>
     lg' = [Printf ''id: %v, req: %v'' ''41'' \<lparr>Id' = None, Item = None, Price = None\<rparr>,
            Printf ''id: %v, req: %v'' ''42''
              \<lparr>Id' = None, Item = Some OrderItemTeaTableRed, Price = Some 3\<rparr>] \<and>
     Status (Response c') = StatusOK \<and> Size (Response c') = 0 \<and> \<not> Committed (Response c')"
  using handler_only_logs
    [of "\<lparr>Bind = Inr \<lparr>Id' = None, Item = Some OrderItemTeaTableRed, Price = Some 3\<rparr>,
          Response = \<lparr>Status = StatusOK, Size = 0, Committed = False\<rparr>\<rparr>"
        "\<lparr>Id' = None, Item = Some OrderItemTeaTableRed, Price = Some 3\<rparr>" "''42''"
        "[Printf ''id: %v, req: %v'' ''41'' \<lparr>Id' = None, Item = None, Price = None\<rparr>]"]
  by simp

text \<open>
  C9. When the body decodes, the handler returns nil whatever the decoded item and
  price are: it checks neither that the item is a declared one nor any range of the
  price.
\<close>

theorem handler_returns_nil_unvalidated:
  assumes "Bind c = Inr \<lparr>Id' = d, Item = i, Price = p\<rparr>"
  shows "returns_nil (PutOrderId c id' lg)"
  using assms by (simp add: PutOrderId_bind_ok returns_nil_def)

theorem handler_returns_nil_unvalidated_witness:
  "''Chair Blue'' \<notin> set declared_items \<and> sint (- 1 :: go_int) < 0 \<and>
   returns_nil
     (PutOrderId
        \<lparr>Bind = Inr \<lparr>Id' = None, Item = Some ''Chair Blue'', Price = Some (- 1)\<rparr>,
         Response = \<lparr>Status = StatusOK, Size = 0, Committed = False\<rparr>\<rparr> ''9'' [])"
  using handler_returns_nil_unvalidated
    [of "\<lparr>Bind = Inr \<lparr>Id' = None, Item = Some ''Chair Blue'', Price = Some (- 1)\<rparr>,
          Response = \<lparr>Status = StatusOK, Size = 0, Committed = False\<rparr>\<rparr>"
        None "Some ''Chair Blue''" "Some (- 1)" "''9''" "[]"]
  by (simp add: declared_items_def OrderItemTeaTableGreen_def OrderItemTeaTableRed_def)

section \<open>Properties of the wire encoding\<close>

lemma sint_go_int_range: "- (2 ^ 63) \<le> sint (p :: go_int) \<and> sint p < 2 ^ 63"
  using sint_ge [of p] sint_lt [of p] by simp

lemma Unmarshal_Marshal: "Unmarshal (Marshal r) = Inr r"
proof (cases r)
  case (fields d i p)
  then show ?thesis
    by (cases d; cases i; cases p)
      (simp_all add: Marshal_def Unmarshal_def sint_go_int_range [simplified])
qed

text \<open>
  C6. Encoding an Order as the client does and decoding the result as the server does
  succeeds for every Order, whichever of its fields are present, and gives an Order
  with the same item and the same price.
\<close>

theorem order_round_trip:
  "\<exists>r'. Unmarshal (Marshal r) = Inr r' \<and> Item r' = Item r \<and> Price r' = Price r"
  by (simp add: Unmarshal_Marshal)

text \<open>
  C8. In the request body each of item and price is absent or present with a value,
  independently of the other: every combination is an Order, and it survives the
  encoding. An absent field differs from a present zero value (price 0, the empty
  item), as a value and on the wire.
\<close>

theorem optional_fields_absent_or_present:
  "(\<exists>r. Item r = i \<and> Price r = p \<and> Unmarshal (Marshal r) = Inr r) \<and>
   \<lparr>Id' = d, Item = i, Price = None\<rparr> \<noteq> \<lparr>Id' = d, Item = i, Price = Some 0\<rparr> \<and>
   \<lparr>Id' = d, Item = None, Price = p\<rparr> \<noteq> \<lparr>Id' = d, Item = Some [], Price = p\<rparr> \<and>
   Marshal \<lparr>Id' = d, Item = i, Price = None\<rparr> \<noteq> Marshal \<lparr>Id' = d, Item = i, Price = Some 0\<rparr> \<and>
   Marshal \<lparr>Id' = d, Item = None, Price = p\<rparr> \<noteq> Marshal \<lparr>Id' = d, Item = Some [], Price = p\<rparr>"
proof -
  have ex: "\<exists>r. Item r = i \<and> Price r = p \<and> Unmarshal (Marshal r) = Inr r"
    by (rule exI [of _ "\<lparr>Id' = None, Item = i, Price = p\<rparr>"]) (simp add: Unmarshal_Marshal)
  have inj: "Marshal a \<noteq> Marshal b" if "a \<noteq> b" for a b
  proof
    assume "Marshal a = Marshal b"
    then have "Unmarshal (Marshal a) = Unmarshal (Marshal b)" by simp
    with that show False by (simp add: Unmarshal_Marshal)
  qed
  have price: "\<lparr>Id' = d, Item = i, Price = None\<rparr> \<noteq> \<lparr>Id' = d, Item = i, Price = Some 0\<rparr>"
    by simp
  have item: "\<lparr>Id' = d, Item = None, Price = p\<rparr> \<noteq> \<lparr>Id' = d, Item = Some [], Price = p\<rparr>"
    by simp
  from ex price item inj [OF price] inj [OF item] show ?thesis by blast
qed

section \<open>Properties of the client\<close>

lemma client_main_exchange_error:
  assumes "NewClientWithResponses env server = Inr cl"
    and "PutOrderIdWithResponse env cl ''234578''
           \<lparr>Id' = None, Item = Some OrderItemTeaTableGreen, Price = Some 14\<rparr> = Inl err"
  shows "client_main env =
           \<lparr>exit_code = 1, logged = [Print err], stdout = [],
            requests = [(''234578'',
              \<lparr>Id' = None, Item = Some OrderItemTeaTableGreen, Price = Some 14\<rparr>)]\<rparr>"
  using assms by (simp add: client_main_def)

lemma client_main_exchange_ok:
  assumes "NewClientWithResponses env server = Inr cl"
    and "PutOrderIdWithResponse env cl ''234578''
           \<lparr>Id' = None, Item = Some OrderItemTeaTableGreen, Price = Some 14\<rparr> = Inr resp"
  shows "client_main env =
           \<lparr>exit_code = 0, logged = [], stdout = [StatusCode resp],
            requests = [(''234578'',
              \<lparr>Id' = None, Item = Some OrderItemTeaTableGreen, Price = Some 14\<rparr>)]\<rparr>"
  using assms by (simp add: client_main_def)

text \<open>
  C5. When the exchange with the server fails, the client reports the error: it logs
  it and exits with code 1, and prints no status code at all. A run in which the
  exchange succeeds exits with code 0 and prints the status code of the response, so
  the two never look alike, whatever that status code is.
\<close>

theorem transport_failure_is_reported:
  assumes "NewClientWithResponses env server = Inr cl"
    and "PutOrderIdWithResponse env cl ''234578''
           \<lparr>Id' = None, Item = Some OrderItemTeaTableGreen, Price = Some 14\<rparr> = Inl err"
    and "NewClientWithResponses env2 server = Inr cl2"
    and "PutOrderIdWithResponse env2 cl2 ''234578''
           \<lparr>Id' = None, Item = Some OrderItemTeaTableGreen, Price = Some 14\<rparr> = Inr resp"
  shows "exit_code (client_main env) = 1 \<and>
         logged (client_main env) = [Print err] \<and>
         stdout (client_main env) = [] \<and>
         exit_code (client_main env2) = 0 \<and>
         stdout (client_main env2) = [StatusCode resp] \<and>
         client_main env \<noteq> client_main env2"
  using client_main_exchange_error [OF assms(1,2)] client_main_exchange_ok [OF assms(3,4)]
  by simp

theorem transport_failure_is_reported_witness:
  "exit_code (client_main
     \<lparr>NewClientWithResponses = \<lambda>a. Inr (),
      PutOrderIdWithResponse = \<lambda>c i b. Inl (OtherError ''connection refused'')\<rparr>) = 1 \<and>
   logged (client_main
     \<lparr>NewClientWithResponses = \<lambda>a. Inr (),
      PutOrderIdWithResponse = \<lambda>c i b. Inl (OtherError ''connection refused'')\<rparr>)
     = [Print (OtherError ''connection refused'')] \<and>
   stdout (client_main
     \<lparr>NewClientWithResponses = \<lambda>a. Inr (),
      PutOrderIdWithResponse = \<lambda>c i b. Inl (OtherError ''connection refused'')\<rparr>) = [] \<and>
   stdout (client_main
     \<lparr>NewClientWithResponses = \<lambda>a. Inr (),
      PutOrderIdWithResponse = \<lambda>c i b. Inr \<lparr>StatusCode = 0\<rparr>\<rparr>) = [0]"
  using transport_failure_is_reported
    [of "\<lparr>NewClientWithResponses = \<lambda>a. Inr (),
          PutOrderIdWithResponse = \<lambda>c i b. Inl (OtherError ''connection refused'')\<rparr>"
        "()" "OtherError ''connection refused''"
        "\<lparr>NewClientWithResponses = \<lambda>a. Inr (),
          PutOrderIdWithResponse = \<lambda>c i b. Inr \<lparr>StatusCode = 0\<rparr>\<rparr>"
        "()" "\<lparr>StatusCode = 0\<rparr>"]
  by simp

text \<open>
  C10. The client has no input: whenever it gets as far as sending, in whatever
  environment, it hands over exactly one request, with path id 234578, item Tea Table
  Green present and price 14 present (and no id in the body); when building the
  client fails it sends nothing. So the requests of a run are fixed by whether the
  client could be built, and two runs that both send, send equal payloads.
\<close>

theorem client_request_is_fixed:
  "requests (client_main env) =
     (case NewClientWithResponses env server of
        Inl err \<Rightarrow> []
      | Inr cl \<Rightarrow>
          [(''234578'', \<lparr>Id' = None, Item = Some ''Tea Table Green'', Price = Some 14\<rparr>)])"
  by (simp add: client_main_def OrderItemTeaTableGreen_def Let_def split: sum.splits)

end
